theory Spec2Isabelle
  imports Complex_Main "HOL-Library.Word" "HOL-Library.Char_ord" "HOL-Library.List_Lexorder"
    "HOL-Library.AList"
begin

text \<open>
  A shallow embedding of the queue broker: the seed try-order of the membership bootstrap
  (app/members.go), the queue engine with its statistics and its registry reconciliation
  (core/topic.go, package app) and the topic fan-out (app/topic.go). Every section gives
  the definitions first, translated from the source, then the properties proved of them.
\<close>

section \<open>Cluster membership bootstrap: the seed try-order (app/members.go)\<close>

text \<open>
  \<^verbatim>\<open>logrus.Fatal\<close> logs its message and exits the process, so a call of it ends the
  function: the outcome \<open>Fatal\<close> carries the message. A run-time panic (a nil pointer
  dereference) that nothing recovers ends the process as well: \<open>Panic\<close>. \<open>Return\<close>
  carries the returned value.
\<close>

datatype 'a outcome = Fatal string | Panic string | Return 'a

text \<open>
  The loop \<^verbatim>\<open>for i, elem := range seedServers { if elem == name { myPos = i } }\<close>.
  It has no \<^verbatim>\<open>break\<close>: the last match wins, and \<open>myPos\<close> keeps its initial value 0 when
  nothing matches.
\<close>

fun findMyPos :: "string \<Rightarrow> string list \<Rightarrow> nat \<Rightarrow> nat \<Rightarrow> nat" where
  "findMyPos name [] i myPos = myPos"
| "findMyPos name (elem # rest) i myPos =
     findMyPos name rest (i + 1) (if elem = name then i else myPos)"

text \<open>
  \<^verbatim>\<open>prioritizeSeedServers\<close>. \<^verbatim>\<open>sort.Strings\<close> orders strings bytewise and
  lexicographically, which is the order of \<open>char list\<close> here; equal strings cannot be told
  apart, so the stable \<open>sort\<close> gives the same list. Both slice expressions are in range:
  \<open>myPos < length sorted\<close>.
\<close>

definition prioritizeSeedServers :: "string \<Rightarrow> string list \<Rightarrow> string list outcome" where
  "prioritizeSeedServers name seedServers =
     (if length seedServers = 0 then Fatal ''The list of seedservers was empty''
      else if length seedServers = 1 \<and> seedServers ! 0 = name then
        Fatal ''The list of seedservers only contained a single entry, which was the current node.''
      else if length seedServers = 1 then Return seedServers
      else
        let sorted = sort seedServers;
            myPos = findMyPos name sorted 0 0;
            preSlice = take myPos sorted;
            postSlice = drop (myPos + 1) sorted
        in Return (postSlice @ preSlice))"

section \<open>Properties of the seed try-order\<close>

lemma findMyPos_absent: "name \<notin> set xs \<Longrightarrow> findMyPos name xs i p = p"
  by (induction xs arbitrary: i p) auto

lemma findMyPos_sorted:
  "sorted xs \<Longrightarrow> name \<in> set xs \<Longrightarrow>
   findMyPos name xs i p = i + length (filter (\<lambda>s. s \<le> name) xs) - 1"
proof (induction xs arbitrary: i p)
  case Nil
  then show ?case by simp
next
  case (Cons x rest)
  show ?case
  proof (cases "name \<in> set rest")
    case True
    with Cons.prems have xle: "x \<le> name" by auto
    from True have "filter (\<lambda>s. s \<le> name) rest \<noteq> []"
      by (auto simp: filter_empty_conv)
    then have pos: "0 < length (filter (\<lambda>s. s \<le> name) rest)" by simp
    from Cons.prems have "sorted rest" by simp
    from Cons.IH [OF this True] xle pos show ?thesis by simp
  next
    case False
    with Cons.prems have xeq: "x = name" by auto
    from Cons.prems False xeq have "\<forall>s\<in>set rest. name < s"
      by (auto simp: less_le)
    then have "filter (\<lambda>s. s \<le> name) rest = []"
      by (auto simp: filter_empty_conv)
    with False xeq show ?thesis by (simp add: findMyPos_absent)
  qed
qed

lemma sorted_split_le:
  "sorted xs \<Longrightarrow> xs = filter (\<lambda>s. s \<le> n) xs @ filter (\<lambda>s. n < s) xs"
proof (induction xs)
  case Nil
  then show ?case by simp
next
  case (Cons x rest)
  show ?case
  proof (cases "x \<le> n")
    case True
    with Cons show ?thesis by simp
  next
    case False
    with Cons.prems have "\<forall>s\<in>set (x # rest). n < s" by auto
    then have "filter (\<lambda>s. s \<le> n) (x # rest) = []" "filter (\<lambda>s. n < s) (x # rest) = x # rest"
      by (auto simp: filter_empty_conv filter_id_conv simp del: filter.simps)
    then show ?thesis by simp
  qed
qed

lemma sorted_split_lt:
  "sorted xs \<Longrightarrow>
   filter (\<lambda>s. s \<le> n) xs = filter (\<lambda>s. s < n) xs @ replicate (count_list xs n) n"
proof (induction xs)
  case Nil
  then show ?case by simp
next
  case (Cons x rest)
  show ?case
  proof (cases "x < n")
    case True
    then have "x \<le> n" "x \<noteq> n" by auto
    with True Cons show ?thesis by simp
  next
    case False
    with Cons.prems have ge: "\<forall>s\<in>set (x # rest). n \<le> s" by auto
    then have "filter (\<lambda>s. s < n) (x # rest) = []" "filter (\<lambda>s. s < n) rest = []"
      by (auto simp: filter_empty_conv simp del: filter.simps)
    with Cons False show ?thesis by (auto simp: replicate_append_same)
  qed
qed

lemma count_list_sort: "count_list (sort xs) n = count_list xs n"
  by (simp add: count_list_eq_length_filter filter_sort)

text \<open>
  What the function returns whenever the own address is listed, duplicates included: the
  entries sorting after the own address, then those sorting before it, then every copy of
  the own address but one.
\<close>

lemma prioritize_general:
  assumes "name \<in> set seedServers" and "2 \<le> length seedServers"
  shows "prioritizeSeedServers name seedServers =
     Return (filter (\<lambda>s. name < s) (sort seedServers)
           @ filter (\<lambda>s. s < name) (sort seedServers)
           @ replicate (count_list seedServers name - 1) name)"
proof -
  let ?xs = "sort seedServers"
  let ?le = "filter (\<lambda>s. s \<le> name) ?xs"
  let ?lt = "filter (\<lambda>s. s < name) ?xs"
  let ?gt = "filter (\<lambda>s. name < s) ?xs"
  let ?c = "count_list seedServers name"
  have srt: "sorted ?xs" by simp
  have mem: "name \<in> set ?xs" using assms by simp
  have cpos: "0 < ?c" using assms(1) count_list_0_iff [of seedServers name] by auto
  have le: "?le = ?lt @ replicate ?c name"
    using sorted_split_lt [OF srt, of name] by (simp add: count_list_sort)
  have xs: "?xs = ?le @ ?gt" using sorted_split_le [OF srt, of name] .
  have pos: "findMyPos name ?xs 0 0 = length ?le - 1"
    using findMyPos_sorted [OF srt mem, of 0 0] by simp
  have lepos: "0 < length ?le" using le cpos by simp
  have "take (length ?le - 1) ?xs = take (length ?le - 1) ?le"
    by (subst xs) simp
  also have "\<dots> = ?lt @ replicate (?c - 1) name"
    using cpos by (simp add: le)
  finally have pre: "take (length ?le - 1) ?xs = ?lt @ replicate (?c - 1) name" .
  have "drop (length ?le - 1 + 1) ?xs = drop (length ?le) (?le @ ?gt)"
    using lepos xs by simp
  then have post: "drop (length ?le - 1 + 1) ?xs = ?gt" by simp
  from assms(2) have "length seedServers \<noteq> 0" "length seedServers \<noteq> 1" by auto
  then show ?thesis
    unfolding prioritizeSeedServers_def Let_def pos pre post by simp
qed

lemma removeAll_replicate: "removeAll n (replicate k n) = []"
  by (induction k) auto

lemma removeAll_sorted:
  "sorted xs \<Longrightarrow> removeAll n xs = filter (\<lambda>s. s < n) xs @ filter (\<lambda>s. n < s) xs"
proof -
  assume srt: "sorted xs"
  have "removeAll n xs = removeAll n (filter (\<lambda>s. s \<le> n) xs) @ removeAll n (filter (\<lambda>s. n < s) xs)"
    using sorted_split_le [OF srt, of n] by (metis removeAll_append)
  also have "removeAll n (filter (\<lambda>s. n < s) xs) = filter (\<lambda>s. n < s) xs"
    by (simp add: removeAll_id)
  also have "removeAll n (filter (\<lambda>s. s \<le> n) xs) = filter (\<lambda>s. s < n) xs"
    by (simp add: sorted_split_lt [OF srt] removeAll_id removeAll_replicate)
  finally show ?thesis .
qed

text \<open>
  C5 (as amended). For every seed list that lists this node's own address exactly once and
  holds at least one other address, the try-order is the sorted list with the own address
  removed, rotated so that the addresses sorting after the own address come before the
  addresses sorting before it; the own address is not in it.
\<close>

theorem prioritizeSeedServers_rotation:
  assumes "count_list seedServers name = 1" and "\<exists>s\<in>set seedServers. s \<noteq> name"
  shows "prioritizeSeedServers name seedServers =
           Return (filter (\<lambda>s. name < s) (sort seedServers)
                 @ filter (\<lambda>s. s < name) (sort seedServers))
         \<and> removeAll name (sort seedServers) =
             filter (\<lambda>s. s < name) (sort seedServers)
           @ filter (\<lambda>s. name < s) (sort seedServers)
         \<and> name \<notin> set (filter (\<lambda>s. name < s) (sort seedServers)
                       @ filter (\<lambda>s. s < name) (sort seedServers))"
proof -
  from assms(1) have mem: "name \<in> set seedServers"
    using count_list_0_iff [of seedServers name] by auto
  from assms(2) obtain s where s: "s \<in> set seedServers" "s \<noteq> name" by blast
  have "card {name, s} \<le> card (set seedServers)"
    using mem s by (intro card_mono) auto
  also have "\<dots> \<le> length seedServers" by (rule card_length)
  finally have len: "2 \<le> length seedServers" using s by simp
  show ?thesis
    using prioritize_general [OF mem len] assms(1) removeAll_sorted [of "sort seedServers" name]
    by auto
qed

theorem prioritizeSeedServers_rotation_witness:
  "count_list [''a'', ''b'', ''c''] ''b'' = 1
   \<and> ''a'' \<in> set [''a'', ''b'', ''c''] \<and> ''a'' \<noteq> ''b''
   \<and> prioritizeSeedServers ''b'' [''a'', ''b'', ''c''] = Return [''c'', ''a'']"
proof -
  have h1: "count_list [''a'', ''b'', ''c''] ''b'' = 1" by simp
  have h2: "\<exists>s\<in>set [''a'', ''b'', ''c'']. s \<noteq> ''b''" by simp
  show ?thesis
    using prioritizeSeedServers_rotation [OF h1 h2] by simp
qed

text \<open>
  C5 as stated fails when the own address is listed more than once: for the seeds
  b, b, a and the own address b, the sorted list without b is just a, and the function
  returns a, b, which still holds the own address.
\<close>

theorem prioritizeSeedServers_duplicate_self:
  "''b'' \<in> set [''b'', ''b'', ''a''] \<and> ''a'' \<in> set [''b'', ''b'', ''a''] \<and> ''a'' \<noteq> ''b''
   \<and> removeAll ''b'' (sort [''b'', ''b'', ''a'']) = [''a'']
   \<and> prioritizeSeedServers ''b'' [''b'', ''b'', ''a''] = Return [''a'', ''b'']
   \<and> prioritizeSeedServers ''b'' [''b'', ''b'', ''a''] \<noteq> Return [''a'']"
  by (simp add: prioritizeSeedServers_def)

text \<open>
  C10. For every seed list with at least two entries that does not hold this node's own
  address, the position index stays 0 and the function returns the sorted list without
  its first entry, which is the lexicographically smallest address of the list.
\<close>

theorem prioritizeSeedServers_absent:
  assumes "name \<notin> set seedServers" and "2 \<le> length seedServers"
  shows "findMyPos name (sort seedServers) 0 0 = 0
         \<and> prioritizeSeedServers name seedServers = Return (tl (sort seedServers))
         \<and> sort seedServers = Min (set seedServers) # tl (sort seedServers)"
proof -
  from assms(1) have pos: "findMyPos name (sort seedServers) 0 0 = 0"
    by (simp add: findMyPos_absent)
  have "length (sort seedServers) = length seedServers" by simp
  with assms(2) have ne: "sort seedServers \<noteq> []" "seedServers \<noteq> []"
    by (auto simp del: length_sort)
  have "hd (sort seedServers) = Min (set (sort seedServers))"
    using ne(1) sorted_sort [of seedServers]
    by (cases "sort seedServers") (auto simp: Min_insert2 simp del: sorted_sort set_sort)
  also have "set (sort seedServers) = set seedServers" by simp
  finally have "hd (sort seedServers) = Min (set seedServers)" .
  then have hd: "sort seedServers = Min (set seedServers) # tl (sort seedServers)"
    using ne(1) by (metis list.collapse)
  from assms(2) have "length seedServers \<noteq> 0" "length seedServers \<noteq> 1" by auto
  then have "prioritizeSeedServers name seedServers = Return (tl (sort seedServers))"
    unfolding prioritizeSeedServers_def Let_def pos by (simp add: drop_Suc)
  with pos hd show ?thesis by blast
qed

theorem prioritizeSeedServers_absent_witness:
  "''z'' \<notin> set [''c'', ''a'', ''b''] \<and> (2::nat) \<le> length [''c'', ''a'', ''b'']
   \<and> prioritizeSeedServers ''z'' [''c'', ''a'', ''b''] = Return [''b'', ''c'']"
proof -
  have h1: "''z'' \<notin> set [''c'', ''a'', ''b'']" by simp
  have h2: "2 \<le> length [''c'', ''a'', ''b'']" by simp
  show ?thesis
    using prioritizeSeedServers_absent [OF h1 h2] by simp
qed

section \<open>IEEE 754 binary64 arithmetic, as the statistics use it\<close>

text \<open>
  Go's \<^verbatim>\<open>float64\<close>. A finite value is the rational it denotes; every operation
  rounds the exact result to the nearest representable value, ties to the even
  significand (53 bits, exponent of the last place from \<open>-1074\<close> to \<open>971\<close>), and overflows
  to an infinity. The sign of zero is not kept: the code below never divides by a zero
  that came out of a computation, only by the conversion of an integer.
\<close>

datatype float64 = Finite rat | PInf | NInf | NaN

function bitlen :: "int \<Rightarrow> int" where
  "bitlen n = (if n \<le> 0 then 0 else 1 + bitlen (n div 2))"
  by pat_completeness auto
termination
  by (relation "measure nat") auto

declare bitlen.simps [simp del]

definition pow2 :: "int \<Rightarrow> rat" where
  "pow2 k = (if 0 \<le> k then 2 ^ nat k else 1 / 2 ^ nat (- k))"

text \<open>The binary exponent of a positive rational: \<open>pow2 (ilog2 x) \<le> x < pow2 (ilog2 x + 1)\<close>.\<close>

definition ilog2 :: "rat \<Rightarrow> int" where
  "ilog2 x =
     (let (p, q) = quotient_of x;
          k = bitlen p - bitlen q
      in if pow2 k \<le> x then k else k - 1)"

definition round_even :: "rat \<Rightarrow> int" where
  "round_even x =
     (let f = \<lfloor>x\<rfloor>; r = x - of_int f
      in if r < 1 / 2 then f else if 1 / 2 < r then f + 1 else if even f then f else f + 1)"

definition fl :: "rat \<Rightarrow> float64" where
  "fl x =
     (if x = 0 then Finite 0
      else
        let e = max (ilog2 \<bar>x\<bar> - 52) (- 1074);
            y = of_int (round_even (x / pow2 e)) * pow2 e
        in if 1024 \<le> ilog2 \<bar>y\<bar> then (if 0 < x then PInf else NInf) else Finite y)"

text \<open>The conversion \<^verbatim>\<open>float64(i)\<close> of an integer.\<close>

definition float64_of_int :: "int \<Rightarrow> float64" where
  "float64_of_int i = fl (of_int i)"

fun fdiv :: "float64 \<Rightarrow> float64 \<Rightarrow> float64" where
  "fdiv NaN _ = NaN"
| "fdiv _ NaN = NaN"
| "fdiv (Finite x) (Finite y) =
     (if y = 0 then (if x = 0 then NaN else if 0 < x then PInf else NInf) else fl (x / y))"
| "fdiv (Finite x) _ = Finite 0"
| "fdiv PInf (Finite y) = (if 0 \<le> y then PInf else NInf)"
| "fdiv NInf (Finite y) = (if 0 \<le> y then NInf else PInf)"
| "fdiv _ _ = NaN"

fun fmul :: "float64 \<Rightarrow> float64 \<Rightarrow> float64" where
  "fmul NaN _ = NaN"
| "fmul _ NaN = NaN"
| "fmul (Finite x) (Finite y) = fl (x * y)"
| "fmul (Finite x) PInf = (if x = 0 then NaN else if 0 < x then PInf else NInf)"
| "fmul (Finite x) NInf = (if x = 0 then NaN else if 0 < x then NInf else PInf)"
| "fmul PInf (Finite y) = (if y = 0 then NaN else if 0 < y then PInf else NInf)"
| "fmul NInf (Finite y) = (if y = 0 then NaN else if 0 < y then NInf else PInf)"
| "fmul PInf PInf = PInf"
| "fmul NInf NInf = PInf"
| "fmul PInf NInf = NInf"
| "fmul NInf PInf = NInf"

text \<open>\<^verbatim>\<open>math.Floor\<close>.\<close>

fun Floor :: "float64 \<Rightarrow> float64" where
  "Floor (Finite x) = Finite (of_int \<lfloor>x\<rfloor>)"
| "Floor f = f"

text \<open>
  The conversion \<^verbatim>\<open>int64(f)\<close> drops the fraction. Where the value does not fit the
  type (an infinity and a NaN included) Go leaves the result to the implementation:
  \<open>Unspecified\<close>.
\<close>

datatype int64_conv = Int64 int | Unspecified

fun int64_of_float :: "float64 \<Rightarrow> int64_conv" where
  "int64_of_float (Finite x) =
     (let t = (if 0 \<le> x then \<lfloor>x\<rfloor> else \<lceil>x\<rceil>)
      in if - (2 ^ 63) \<le> t \<and> t < 2 ^ 63 then Int64 t else Unspecified)"
| "int64_of_float _ = Unspecified"

section \<open>Integers and their decimal strings\<close>

text \<open>Arithmetic on \<^verbatim>\<open>int64\<close> (and on \<^verbatim>\<open>int\<close>, 64 bits wide) wraps around.\<close>

definition wrap64 :: "int \<Rightarrow> int" where
  "wrap64 x = sint (word_of_int x :: 64 word)"

definition MaxInt64 :: int where
  "MaxInt64 = 2 ^ 63 - 1"

definition is_digit :: "char \<Rightarrow> bool" where
  "is_digit c = (CHR ''0'' \<le> c \<and> c \<le> CHR ''9'')"

fun all_digits :: "string \<Rightarrow> bool" where
  "all_digits [] = True"
| "all_digits (c # cs) = (is_digit c \<and> all_digits cs)"

fun digits_value :: "int \<Rightarrow> string \<Rightarrow> int" where
  "digits_value acc [] = acc"
| "digits_value acc (c # cs) = digits_value (acc * 10 + (of_char c - 48)) cs"

text \<open>
  The value \<^verbatim>\<open>strconv.ParseInt(s, 10, 64)\<close> returns; the callers here drop its error.
  It is 0 on a syntax error (no digits, or a character that is not a digit after the
  optional sign) and the nearest bound of the type when the number is out of range.
\<close>

definition ParseInt :: "string \<Rightarrow> int" where
  "ParseInt s =
     (let neg = (s \<noteq> [] \<and> hd s = CHR ''-'');
          ds = (if s \<noteq> [] \<and> (hd s = CHR ''+'' \<or> hd s = CHR ''-'') then tl s else s)
      in if ds = [] \<or> \<not> all_digits ds then 0
         else
           let un = digits_value 0 ds
           in if neg then (if 2 ^ 63 < un then - (2 ^ 63) else - un)
              else (if 2 ^ 63 \<le> un then 2 ^ 63 - 1 else un))"

text \<open>The decimal string of an integer (\<^verbatim>\<open>big.Int.String\<close>).\<close>

function decimal :: "int \<Rightarrow> string" where
  "decimal n =
     (if n < 0 then CHR ''-'' # decimal (- n)
      else if n < 10 then [char_of (48 + n)]
      else decimal (n div 10) @ [char_of (48 + n mod 10)])"
  by pat_completeness auto
termination
  by (relation "measure (\<lambda>n. if n < 0 then nat (- n) + 1 else nat n)") auto

declare decimal.simps [simp del]

section \<open>The data of the broker\<close>

text \<open>A Go \<^verbatim>\<open>error\<close> that is not nil, with its message.\<close>

datatype err = Err string

text \<open>
  A replicated map of the configuration store (\<^verbatim>\<open>riak.RDtMap\<close>), as far as the code
  reads it: its set-valued entries, each the list of the set's members. An entry that is
  missing is one for which \<^verbatim>\<open>FetchSet\<close> returns nil. A pointer to a map is an option.
\<close>

record RDtMap =
  Sets :: "(string \<times> string list) list"

text \<open>
  A queue. \<open>Parts\<close> stands for the partition set, whose code is not among the sources:
  the number \<^verbatim>\<open>PartitionCount()\<close> returns is all that is read of it.
\<close>

record Queue =
  Name :: string
  Parts :: nat
  Config :: "RDtMap option"

text \<open>The stats client: counters and gauges by key.\<close>

record stats =
  counters :: "string \<Rightarrow> int"
  gauges :: "string \<Rightarrow> int64_conv"

definition SetGauge :: "stats \<Rightarrow> string \<Rightarrow> int64_conv \<Rightarrow> stats" where
  "SetGauge c key v = c\<lparr>gauges := (gauges c)(key := v)\<rparr>"

definition Incr :: "stats \<Rightarrow> string \<Rightarrow> int \<Rightarrow> stats" where
  "Incr c key n = c\<lparr>counters := (counters c)(key := counters c key + n)\<rparr>"

definition IncrGauge :: "stats \<Rightarrow> string \<Rightarrow> int \<Rightarrow> stats" where
  "IncrGauge c key n =
     c\<lparr>gauges := (gauges c)(key := (case gauges c key of Int64 v \<Rightarrow> Int64 (v + n)
                                                       | Unspecified \<Rightarrow> Unspecified))\<rparr>"

definition DecrGauge :: "stats \<Rightarrow> string \<Rightarrow> int \<Rightarrow> stats" where
  "DecrGauge c key n = IncrGauge c key (- n)"

text \<open>\<^verbatim>\<open>fmt.Sprintf("%s.%s", queueName, suffix)\<close>.\<close>

definition statsKey :: "string \<Rightarrow> string \<Rightarrow> string" where
  "statsKey queueName suffix = queueName @ ''.'' @ suffix"

definition QueueSentStatsSuffix :: string where
  "QueueSentStatsSuffix = ''sent.count''"

definition QueueReceivedStatsSuffix :: string where
  "QueueReceivedStatsSuffix = ''received.count''"

definition QueueDeletedStatsSuffix :: string where
  "QueueDeletedStatsSuffix = ''deleted.count''"

definition QueueDepthStatsSuffix :: string where
  "QueueDepthStatsSuffix = ''depth.count''"

definition QueueDepthAprStatsSuffix :: string where
  "QueueDepthAprStatsSuffix = ''approximate_depth.count''"

definition QueueFillDeltaStatsSuffix :: string where
  "QueueFillDeltaStatsSuffix = ''fill.count''"

section \<open>The fill ratio and the approximate depth (core/topic.go)\<close>

definition recordFillRatio :: "stats \<Rightarrow> string \<Rightarrow> int \<Rightarrow> int \<Rightarrow> stats" where
  "recordFillRatio c queueName batchSize messageCount =
     (let key = statsKey queueName QueueFillDeltaStatsSuffix;
          rate = int64_of_float
                   (Floor (fmul (fdiv (float64_of_int messageCount) (float64_of_int batchSize))
                                (Finite 100)))
      in SetGauge c key rate)"

definition incrementMessageCount :: "stats \<Rightarrow> string \<Rightarrow> int \<Rightarrow> stats" where
  "incrementMessageCount c queueName numberOfMessages =
     IncrGauge (Incr c (statsKey queueName QueueSentStatsSuffix) numberOfMessages)
       (statsKey queueName QueueDepthStatsSuffix) numberOfMessages"

definition decrementMessageCount :: "stats \<Rightarrow> string \<Rightarrow> int \<Rightarrow> stats" where
  "decrementMessageCount c queueName numberOfMessages =
     DecrGauge (Incr c (statsKey queueName QueueDeletedStatsSuffix) numberOfMessages)
       (statsKey queueName QueueDepthStatsSuffix) numberOfMessages"

definition incrementReceiveCount :: "stats \<Rightarrow> string \<Rightarrow> int \<Rightarrow> stats" where
  "incrementReceiveCount c queueName numberOfMessages =
     Incr c (statsKey queueName QueueReceivedStatsSuffix) numberOfMessages"

text \<open>
  \<^verbatim>\<open>setQueueDepthApr\<close>; \<open>list\<close> is the member list of the cluster. The constant
  \<^verbatim>\<open>math.MaxInt64\<close> is converted to \<^verbatim>\<open>float64\<close> for the product.
\<close>

definition setQueueDepthApr ::
    "Queue \<Rightarrow> stats \<Rightarrow> string list \<Rightarrow> string \<Rightarrow> string list \<Rightarrow> stats" where
  "setQueueDepthApr queue c list queueName ids =
     (let key = statsKey queueName QueueDepthAprStatsSuffix
      in if 1 < length ids then
           let first = ParseInt (ids ! 0);
               last = ParseInt (ids ! (length ids - 1));
               difference = wrap64 (last - first);
               density = fdiv (float64_of_int (int (length ids))) (float64_of_int difference);
               count = fmul density (float64_of_int MaxInt64)
           in SetGauge c key (int64_of_float count)
         else
           let multiplier = wrap64 (int (Parts queue) * int (length list))
           in SetGauge c key (Int64 (wrap64 (int (length ids) * multiplier))))"


text \<open>A stats client on which nothing has been recorded.\<close>

definition noStats :: stats where
  "noStats = \<lparr>counters = (\<lambda>_. 0), gauges = (\<lambda>_. Int64 0)\<rparr>"

section \<open>Properties of the fill ratio and of the approximate depth\<close>














text \<open>
  C4. The claim is that the gauge \<open>fill.count\<close> is the floored percentage
  \<open>\<lfloor>messageCount / batchSize * 100\<rfloor>\<close>. It is for 3 messages of 10: 30. It is not for 57
  messages of 100: the quotient is rounded to the \<^verbatim>\<open>float64\<close> next to 0.57, which is
  below it, the product with 100 is rounded to the \<^verbatim>\<open>float64\<close> just below 57, and the
  floor is 56.
\<close>

theorem recordFillRatio_57_of_100:
  "gauges (recordFillRatio noStats ''q'' 100 57) ''q.fill.count'' = Int64 56
   \<and> \<lfloor>(57 :: rat) / 100 * 100\<rfloor> = 57
   \<and> fdiv (float64_of_int 57) (float64_of_int 100) = Finite (5134103575202365 / 2 ^ 53)
   \<and> fmul (Finite (5134103575202365 / 2 ^ 53)) (Finite 100) = Finite (57 - 1 / 2 ^ 47)"
proof -
  have a: "fdiv (float64_of_int 57) (float64_of_int 100) = Finite (5134103575202365 / 2 ^ 53)"
    by code_simp
  have b: "fmul (Finite (5134103575202365 / 2 ^ 53)) (Finite 100) = Finite (57 - 1 / 2 ^ 47)"
    by code_simp
  have c: "int64_of_float
             (Floor (fmul (fdiv (float64_of_int 57) (float64_of_int 100)) (Finite 100)))
           = Int64 56"
    by code_simp
  have d: "gauges (recordFillRatio noStats ''q'' 100 57) ''q.fill.count'' = Int64 56"
    unfolding recordFillRatio_def Let_def SetGauge_def statsKey_def QueueFillDeltaStatsSuffix_def
    by (simp add: c)
  have e: "\<lfloor>(57 :: rat) / 100 * 100\<rfloor> = 57" by simp
  from a b d e show ?thesis by blast
qed

lemma recordFillRatio_3_of_10:
  "gauges (recordFillRatio noStats ''q'' 10 3) ''q.fill.count'' = Int64 30"
proof -
  have "int64_of_float (Floor (fmul (fdiv (float64_of_int 3) (float64_of_int 10)) (Finite 100)))
          = Int64 30"
    by code_simp
  then show ?thesis
    unfolding recordFillRatio_def Let_def SetGauge_def statsKey_def QueueFillDeltaStatsSuffix_def
    by simp
qed

section \<open>The queue engine (core/topic.go)\<close>

text \<open>
  A stored object as the storage adapter hands it out (\<^verbatim>\<open>riak.RObject\<close>) and one of the
  values of a key in conflict (\<^verbatim>\<open>riak.Sibling\<close>, whose field \<^verbatim>\<open>Data\<close> is \<open>SData\<close>
  here). \<^verbatim>\<open>Conflict()\<close> returns the field \<open>conflict\<close>.
\<close>

record Sibling =
  SData :: string

record RObject =
  Key :: string
  Data :: string
  ContentType :: string
  Indexes :: "(string \<times> string list) list"
  conflict :: bool
  Siblings :: "Sibling list"

record Topic =
  TopicName :: string
  TopicConfig :: "RDtMap option"

text \<open>
  The calls that change something outside the process or in the registries, in the order
  they are made. The trace is a history of the run, not a variable of the program.
\<close>

datatype event =
    EvPut string string
  | EvStore string RObject
  | EvDestroy string string
  | EvPushPartition string nat bool
  | EvStoreMap string RDtMap
  | EvTopicDeleteQueue string string
  | EvLocalDelete string

text \<open>
  The configuration \<^verbatim>\<open>cfg\<close> with everything it reaches: the registries
  (\<open>QueueMap\<close>, \<open>QueuesConfig\<close>, \<open>TopicMap\<close>; a Go map is the list of its entries, with
  \<open>map_of\<close> for the lookup and the order of the list for the order \<^verbatim>\<open>range\<close> happens to
  take), the stats client, the member list, and the collaborators whose code is not
  among the sources. What a collaborator answers is a parameter of the model:
  \<^item> \<open>adapterErr n\<close> is the error of call number \<open>n\<close> to the storage adapter
    (\<^verbatim>\<open>NewBucketType\<close>, \<^verbatim>\<open>Store\<close>, \<^verbatim>\<open>Destroy\<close>), \<open>None\<close> when it succeeds; \<open>calls\<close> counts
    the calls made, so that a failure may come and go;
  \<^item> \<open>getAns\<close>, \<open>queryAns\<close>, \<open>fetchMapAns\<close> and \<open>partitionAns\<close> are the pairs
    \<^verbatim>\<open>bucket.Get\<close>, \<^verbatim>\<open>bucket.IndexQueryRangePage\<close>, \<^verbatim>\<open>bucket.FetchMap\<close> and
    \<^verbatim>\<open>GetPartition\<close> return at call \<open>n\<close>: a value (a pointer is an option, \<open>None\<close> for nil)
    and an error;
  \<^item> \<open>randInt i\<close> is what draw number \<open>i\<close> of the random source gives, \<open>draws\<close> counts
    the draws made;
  \<^item> \<open>CompressedMessages\<close>, \<open>Compress\<close>, \<open>Decompress\<close>, \<open>InitPartitions\<close> and
    \<open>syncPartitions\<close> are the settings accessor, the compressor and the partition
    manager; \<open>QueueConfigName\<close>, \<open>QueueSetName\<close> and \<open>queueConfigRecordName\<close> are the
    names the configuration gives to the map of the queue registry, to its set of queue
    names and to the map of one queue.
\<close>

record world =
  QueueMap :: "(string \<times> Queue) list"
  QueuesConfig :: "RDtMap option"
  TopicMap :: "(string \<times> Topic) list"
  Stats :: stats
  Members :: "string list"
  calls :: nat
  adapterErr :: "nat \<Rightarrow> err option"
  getAns :: "nat \<Rightarrow> string \<Rightarrow> RObject option \<times> err option"
  queryAns :: "nat \<Rightarrow> string list \<times> err option"
  fetchMapAns :: "nat \<Rightarrow> string \<Rightarrow> RDtMap option \<times> err option"
  partitionAns :: "nat \<Rightarrow> (int \<times> int \<times> nat) \<times> err option"
  CompressedMessages :: "string \<Rightarrow> bool"
  Compress :: "string \<Rightarrow> string \<times> err option"
  Decompress :: "string \<Rightarrow> string \<times> err option"
  QueueConfigName :: string
  QueueSetName :: string
  queueConfigRecordName :: "string \<Rightarrow> string"
  InitPartitions :: "string \<Rightarrow> nat"
  syncPartitions :: "string \<Rightarrow> nat \<Rightarrow> nat"
  draws :: nat
  randInt :: "nat \<Rightarrow> int"
  trace :: "event list"

definition NewBucketType :: "world \<Rightarrow> err option \<times> world" where
  "NewBucketType w = (adapterErr w (calls w), w\<lparr>calls := calls w + 1\<rparr>)"

text \<open>\<^verbatim>\<open>messageObj.Store()\<close> on an object of the bucket of queue \<open>name\<close>.\<close>

definition Store :: "world \<Rightarrow> string \<Rightarrow> RObject \<Rightarrow> err option \<times> world" where
  "Store w name obj =
     (adapterErr w (calls w), w\<lparr>calls := calls w + 1, trace := trace w @ [EvStore name obj]\<rparr>)"

text \<open>\<^verbatim>\<open>rObject.Destroy()\<close>.\<close>

definition Destroy :: "world \<Rightarrow> string \<Rightarrow> RObject \<Rightarrow> err option \<times> world" where
  "Destroy w name obj =
     (adapterErr w (calls w),
      w\<lparr>calls := calls w + 1, trace := trace w @ [EvDestroy name (Key obj)]\<rparr>)"

text \<open>\<^verbatim>\<open>bucket.Get(riakKey)\<close>.\<close>

definition BucketGet :: "world \<Rightarrow> string \<Rightarrow> (RObject option \<times> err option) \<times> world" where
  "BucketGet w riakKey = (getAns w (calls w) riakKey, w\<lparr>calls := calls w + 1\<rparr>)"

text \<open>
  \<^verbatim>\<open>rand.Int(rand.Reader, &MaxIDSize)\<close>: a number from 0 up to, and without,
  \<^verbatim>\<open>math.MaxInt64\<close>.
\<close>

definition randomID :: "world \<Rightarrow> int \<times> world" where
  "randomID w = (randInt w (draws w) mod MaxInt64, w\<lparr>draws := draws w + 1\<rparr>)"

text \<open>
  \<^verbatim>\<open>Queue.Put\<close>. The error of \<^verbatim>\<open>Store\<close> is dropped by the source; the deferred
  \<^verbatim>\<open>incrementMessageCount\<close> runs when the function returns the id.
\<close>

definition Put :: "world \<Rightarrow> Queue \<Rightarrow> string \<Rightarrow> string \<times> world" where
  "Put w queue message =
     (let (err, w1) = NewBucketType (w\<lparr>trace := trace w @ [EvPut (Name queue) message]\<rparr>)
      in case err of
           None \<Rightarrow>
             let body = message;
                 shouldCompress = CompressedMessages w1 (Name queue);
                 body = (if shouldCompress then
                           (case Compress w1 body of
                              (compressedBody, Some e) \<Rightarrow> body
                            | (compressedBody, None) \<Rightarrow> compressedBody)
                         else body);
                 (randy, w2) = randomID w1;
                 uuid = decimal randy;
                 messageObj = \<lparr>Key = uuid, Data = body, ContentType = ''application/json'',
                               Indexes = [(''id_int'', [uuid])], conflict = False,
                               Siblings = []\<rparr>;
                 (_, w3) = Store w2 (Name queue) messageObj
             in (uuid, w3\<lparr>Stats := incrementMessageCount (Stats w3) (Name queue) 1\<rparr>)
         | Some e \<Rightarrow> ('''', w1))"

text \<open>
  \<^verbatim>\<open>Queue.RetrieveMessages\<close>. Each id is fetched by a goroutine of its own, and the
  collecting loop takes the objects as they arrive. The model runs the fetches first, in
  the order of the ids, and hands the objects to the collecting loop in that order: one
  of the schedules the source allows.

  One fetch: the error of \<^verbatim>\<open>NewBucketType\<close> is dropped, the error of \<^verbatim>\<open>Get\<close> is logged,
  and the object pointer is read in either case (\<^verbatim>\<open>rObject.Data\<close>, \<^verbatim>\<open>*rObject\<close>): a nil
  pointer panics, and a panic in a goroutine ends the process.
\<close>

definition fetchObject :: "world \<Rightarrow> bool \<Rightarrow> string \<Rightarrow> (RObject \<times> world) outcome" where
  "fetchObject w decompressMessages riakKey =
     (let (_, w1) = NewBucketType w;
          ((rObject, err), w2) = BucketGet w1 riakKey
      in case rObject of
           None \<Rightarrow> Panic ''invalid memory address or nil pointer dereference''
         | Some obj \<Rightarrow>
             Return (if decompressMessages then obj\<lparr>Data := fst (Decompress w2 (Data obj))\<rparr>
                     else obj, w2))"

fun fetchObjects :: "world \<Rightarrow> bool \<Rightarrow> string list \<Rightarrow> (RObject list \<times> world) outcome" where
  "fetchObjects w decompressMessages [] = Return ([], w)"
| "fetchObjects w decompressMessages (riakKey # ids) =
     (case fetchObject w decompressMessages riakKey of
        Return (obj, w1) \<Rightarrow>
          (case fetchObjects w1 decompressMessages ids of
             Return (objs, w2) \<Rightarrow> Return (obj # objs, w2)
           | Panic p \<Rightarrow> Panic p
           | Fatal f \<Rightarrow> Fatal f)
      | Panic p \<Rightarrow> Panic p
      | Fatal f \<Rightarrow> Fatal f)"

text \<open>The read repair of one object in conflict: the loop over its siblings.\<close>

fun repairSiblings :: "world \<Rightarrow> Queue \<Rightarrow> Sibling list \<Rightarrow> world" where
  "repairSiblings w queue [] = w"
| "repairSiblings w queue (sibling # rest) =
     repairSiblings
       (if 0 < length (SData sibling) then snd (Put w queue (SData sibling)) else w)
       queue rest"

text \<open>One round of the collecting loop, for the object \<open>rObject\<close> taken from the channel.\<close>

definition collectObject ::
    "Queue \<Rightarrow> RObject list \<times> world \<Rightarrow> RObject \<Rightarrow> RObject list \<times> world" where
  "collectObject queue acc rObject =
     (let (returnVals, w) = acc;
          returnVals = (if 0 < length (Data rObject) then returnVals @ [rObject] else returnVals)
      in if conflict rObject then
           let w1 = repairSiblings w queue (Siblings rObject);
               (err, w2) = Destroy w1 (Name queue) rObject
           in (returnVals, w2)
         else (returnVals, w))"

definition RetrieveMessages ::
    "world \<Rightarrow> Queue \<Rightarrow> string list \<Rightarrow> (RObject list \<times> world) outcome" where
  "RetrieveMessages w queue ids =
     (let decompressMessages = CompressedMessages w (Name queue)
      in case fetchObjects w decompressMessages ids of
           Return (objs, w1) \<Rightarrow> Return (foldl (collectObject queue) ([], w1) objs)
         | Panic p \<Rightarrow> Panic p
         | Fatal f \<Rightarrow> Fatal f)"

text \<open>
  \<^verbatim>\<open>Queue.Get\<close>. The deferred calls run after \<^verbatim>\<open>RetrieveMessages\<close> has returned, the
  last deferred first. \<^verbatim>\<open>PushPartition\<close> is the partition manager's: the model records
  the call.
\<close>

definition Get ::
    "world \<Rightarrow> Queue \<Rightarrow> int \<Rightarrow> ((RObject list \<times> err option) \<times> world) outcome" where
  "Get w queue batchsize =
     (let (err, w1) = NewBucketType w
      in case err of
           Some e \<Rightarrow> Return (([], Some e), w1)
         | None \<Rightarrow>
             let ((partBottom, partTop, partition), perr) = partitionAns w1 (calls w1);
                 w2 = w1\<lparr>calls := calls w1 + 1\<rparr>
             in case perr of
                  Some e \<Rightarrow> Return (([], Some e), w2)
                | None \<Rightarrow>
                    let (messageIds, qerr) = queryAns w2 (calls w2);
                        w3 = w2\<lparr>calls := calls w2 + 1\<rparr>;
                        messageCount = int (length messageIds)
                    in case RetrieveMessages w3 queue messageIds of
                         Return (msgs, w4) \<Rightarrow>
                           let w5 = w4\<lparr>Stats := recordFillRatio (Stats w4) (Name queue)
                                                   batchsize messageCount\<rparr>;
                               w6 = w5\<lparr>Stats := incrementReceiveCount (Stats w5) (Name queue)
                                                   messageCount\<rparr>;
                               w7 = w6\<lparr>trace := trace w6 @
                                         [EvPushPartition (Name queue) partition
                                            (0 < messageCount)]\<rparr>;
                               w8 = w7\<lparr>Stats := setQueueDepthApr queue (Stats w7) (Members w7)
                                                   (Name queue) messageIds\<rparr>
                           in Return ((msgs, qerr), w8)
                       | Panic p \<Rightarrow> Panic p
                       | Fatal f \<Rightarrow> Fatal f)"

text \<open>A world in which every collaborator answers without an error and nothing is stored.\<close>

definition quiet :: world where
  "quiet =
     \<lparr>QueueMap = [], QueuesConfig = None, TopicMap = [], Stats = noStats, Members = [],
      calls = 0, adapterErr = (\<lambda>n. None),
      getAns = (\<lambda>n k. (Some \<lparr>Key = '''', Data = '''', ContentType = '''', Indexes = [],
                                conflict = False, Siblings = []\<rparr>, Some (Err ''Object not found''))),
      queryAns = (\<lambda>n. ([], None)),
      fetchMapAns = (\<lambda>n k. (Some \<lparr>Sets = []\<rparr>, None)),
      partitionAns = (\<lambda>n. ((0, MaxInt64, 0), None)),
      CompressedMessages = (\<lambda>q. False),
      Compress = (\<lambda>b. (b, None)), Decompress = (\<lambda>b. (b, None)),
      QueueConfigName = ''queue_config'', QueueSetName = ''queues'',
      queueConfigRecordName = (\<lambda>q. ''queue_'' @ q @ ''_config''),
      InitPartitions = (\<lambda>q. 1), syncPartitions = (\<lambda>q n. n),
      draws = 0, randInt = (\<lambda>i. 1000 + int i), trace = []\<rparr>"

text \<open>
  The read repair in the words of the specification, as the calls it makes for one
  fetched object: for a key in conflict a \<^verbatim>\<open>Put\<close> of every sibling whose content is not
  empty, then the deletion of the key; nothing for any other object. \<open>repairedSiblings\<close>
  are the siblings it puts again.
\<close>

definition repairCalls :: "Queue \<Rightarrow> RObject \<Rightarrow> event list" where
  "repairCalls queue obj =
     (if conflict obj then
        map (\<lambda>s. EvPut (Name queue) (SData s)) (filter (\<lambda>s. SData s \<noteq> []) (Siblings obj))
        @ [EvDestroy (Name queue) (Key obj)]
      else [])"

text \<open>Readers of the trace: the calls of a read repair, the puts, the keys stored.\<close>

fun isRepairCall :: "event \<Rightarrow> bool" where
  "isRepairCall (EvPut q m) = True"
| "isRepairCall (EvDestroy q k) = True"
| "isRepairCall e = False"

fun isPut :: "event \<Rightarrow> bool" where
  "isPut (EvPut q m) = True"
| "isPut e = False"

fun storedKeys :: "event list \<Rightarrow> string list" where
  "storedKeys [] = []"
| "storedKeys (EvStore q obj # evs) = Key obj # storedKeys evs"
| "storedKeys (e # evs) = storedKeys evs"


text \<open>
  Worlds and objects to run the engine on: a queue; a world whose second call to the
  storage adapter fails; a stored object; a key in conflict with three siblings, one of
  them empty; a world that holds it; a world in which the fetch of the key 2 fails with a
  nil object.
\<close>

definition orders :: Queue where
  "orders = \<lparr>Name = ''orders'', Parts = 1, Config = None\<rparr>"

definition storeDown :: world where
  "storeDown = quiet\<lparr>adapterErr := (\<lambda>n. if n = 1 then Some (Err ''timeout'') else None)\<rparr>"

definition plain :: "string \<Rightarrow> RObject" where
  "plain k = \<lparr>Key = k, Data = ''body of '' @ k, ContentType = ''application/json'',
              Indexes = [(''id_int'', [k])], conflict = False, Siblings = []\<rparr>"



definition getDown :: world where
  "getDown =
     quiet\<lparr>getAns := (\<lambda>n k. if k = ''2'' then (None, Some (Err ''connection refused''))
                              else (Some (plain k), None)),
           queryAns := (\<lambda>n. ([''1'', ''2'', ''3''], None))\<rparr>"


section \<open>Properties of the queue engine\<close>

lemma storedKeys_append: "storedKeys (xs @ ys) = storedKeys xs @ storedKeys ys"
  by (induction xs rule: storedKeys.induct) auto

lemma decimal_nonempty: "decimal n \<noteq> []"
  by (subst decimal.simps) simp

lemma Put_bucket_error:
  "adapterErr w (calls w) = Some e \<Longrightarrow>
   Put w queue message =
     ('''', w\<lparr>trace := trace w @ [EvPut (Name queue) message], calls := calls w + 1\<rparr>)"
  by (simp add: Put_def NewBucketType_def)

lemma Put_bucket_ok:
  "adapterErr w (calls w) = None \<Longrightarrow>
   fst (Put w queue message) = decimal (randInt w (draws w) mod MaxInt64)
   \<and> (\<exists>obj. Key obj = decimal (randInt w (draws w) mod MaxInt64)
          \<and> trace (snd (Put w queue message)) =
              trace w @ [EvPut (Name queue) message, EvStore (Name queue) obj])
   \<and> draws (snd (Put w queue message)) = draws w + 1
   \<and> calls (snd (Put w queue message)) = calls w + 2"
  by (simp add: Put_def NewBucketType_def randomID_def Store_def Let_def split: prod.splits)

lemma Put_frame:
  "randInt (snd (Put w queue message)) = randInt w
   \<and> adapterErr (snd (Put w queue message)) = adapterErr w
   \<and> QueueMap (snd (Put w queue message)) = QueueMap w"
  by (simp add: Put_def NewBucketType_def randomID_def Store_def Let_def
      split: prod.splits option.splits)

lemma Put_effect:
  "filter isRepairCall (trace (snd (Put w queue message))) =
     filter isRepairCall (trace w) @ [EvPut (Name queue) message]
   \<and> draws w \<le> draws (snd (Put w queue message))
   \<and> storedKeys (trace (snd (Put w queue message))) =
       storedKeys (trace w) @
       map (\<lambda>i. decimal (randInt w i mod MaxInt64)) [draws w ..< draws (snd (Put w queue message))]"
proof (cases "adapterErr w (calls w)")
  case None
  from Put_bucket_ok [OF None, of queue message] show ?thesis
    by (auto simp: storedKeys_append)
next
  case (Some e)
  from Put_bucket_error [OF Some, of queue message] show ?thesis
    by (simp add: storedKeys_append)
qed

lemma fresh_keys_trans:
  assumes "ks1 = ks0 @ map f [d0 ..< d1]" and "ks2 = ks1 @ map f [d1 ..< d2]"
    and "d0 \<le> d1" and "d1 \<le> (d2::nat)"
  shows "ks2 = ks0 @ map f [d0 ..< d2]"
proof -
  from assms(3,4) have "[d0 ..< d2] = [d0 ..< d1] @ [d1 ..< d2]"
    by (metis le_Suc_ex upt_add_eq_append)
  with assms(1,2) show ?thesis by simp
qed

lemma repairSiblings_effect:
  "filter isRepairCall (trace (repairSiblings w queue sibs)) =
     filter isRepairCall (trace w)
     @ map (\<lambda>s. EvPut (Name queue) (SData s)) (filter (\<lambda>s. SData s \<noteq> []) sibs)
   \<and> randInt (repairSiblings w queue sibs) = randInt w
   \<and> draws w \<le> draws (repairSiblings w queue sibs)
   \<and> storedKeys (trace (repairSiblings w queue sibs)) =
       storedKeys (trace w) @
       map (\<lambda>i. decimal (randInt w i mod MaxInt64)) [draws w ..< draws (repairSiblings w queue sibs)]"
proof (induction sibs arbitrary: w)
  case Nil
  then show ?case by simp
next
  case (Cons s rest)
  show ?case
  proof (cases "SData s = []")
    case True
    with Cons.IH [of w] show ?thesis by simp
  next
    case False
    let ?w1 = "snd (Put w queue (SData s))"
    note ih = Cons.IH [of ?w1]
    note p = Put_effect [of w queue "SData s"]
    note f = Put_frame [of w queue "SData s"]
    have r: "repairSiblings w queue (s # rest) = repairSiblings ?w1 queue rest"
      using False by simp
    have keys: "storedKeys (trace (repairSiblings ?w1 queue rest)) =
       storedKeys (trace w) @
       map (\<lambda>i. decimal (randInt w i mod MaxInt64)) [draws w ..< draws (repairSiblings ?w1 queue rest)]"
      using fresh_keys_trans [of "storedKeys (trace ?w1)" "storedKeys (trace w)"
          "\<lambda>i. decimal (randInt w i mod MaxInt64)" "draws w" "draws ?w1"
          "storedKeys (trace (repairSiblings ?w1 queue rest))" "draws (repairSiblings ?w1 queue rest)"]
        ih p f by simp
    from ih p f keys False show ?thesis unfolding r by simp
  qed
qed

lemma collectObject_effect:
  assumes "collectObject queue (vals, w) obj = (vals', w')"
  shows "vals' = vals @ filter (\<lambda>x. Data x \<noteq> []) [obj]
   \<and> filter isRepairCall (trace w') = filter isRepairCall (trace w) @ repairCalls queue obj
   \<and> randInt w' = randInt w
   \<and> draws w \<le> draws w'
   \<and> storedKeys (trace w') =
       storedKeys (trace w) @ map (\<lambda>i. decimal (randInt w i mod MaxInt64)) [draws w ..< draws w']"
proof (cases "conflict obj")
  case False
  with assms show ?thesis
    by (auto simp: collectObject_def repairCalls_def)
next
  case True
  let ?w1 = "repairSiblings w queue (Siblings obj)"
  from assms True have w': "w' = snd (Destroy ?w1 (Name queue) obj)"
    and vals': "vals' = vals @ filter (\<lambda>x. Data x \<noteq> []) [obj]"
    by (auto simp: collectObject_def Let_def split: prod.splits)
  from repairSiblings_effect [of w queue "Siblings obj"] True show ?thesis
    unfolding w' vals' by (simp add: Destroy_def repairCalls_def storedKeys_append)
qed

lemma collect_all_effect:
  assumes "foldl (collectObject queue) (vals, w) objs = (vals', w')"
  shows "vals' = vals @ filter (\<lambda>x. Data x \<noteq> []) objs
   \<and> filter isRepairCall (trace w') =
       filter isRepairCall (trace w) @ concat (map (repairCalls queue) objs)
   \<and> randInt w' = randInt w
   \<and> draws w \<le> draws w'
   \<and> storedKeys (trace w') =
       storedKeys (trace w) @ map (\<lambda>i. decimal (randInt w i mod MaxInt64)) [draws w ..< draws w']"
  using assms
proof (induction objs arbitrary: vals w)
  case Nil
  then show ?case by simp
next
  case (Cons obj rest)
  obtain v1 w1 where step: "collectObject queue (vals, w) obj = (v1, w1)"
    by (cases "collectObject queue (vals, w) obj")
  with Cons.prems have rest: "foldl (collectObject queue) (v1, w1) rest = (vals', w')" by simp
  note a = collectObject_effect [OF step]
  note b = Cons.IH [OF rest]
  have keys: "storedKeys (trace w') =
       storedKeys (trace w) @ map (\<lambda>i. decimal (randInt w i mod MaxInt64)) [draws w ..< draws w']"
    using fresh_keys_trans [of "storedKeys (trace w1)" "storedKeys (trace w)"
        "\<lambda>i. decimal (randInt w i mod MaxInt64)" "draws w" "draws w1"
        "storedKeys (trace w')" "draws w'"] a b by simp
  from a b keys show ?case by simp
qed












lemma decimal_1000: "decimal 1000 = ''1000''" "decimal 1001 = ''1001''"
  by code_simp+

text \<open>
  C1. The claim is that \<^verbatim>\<open>Put\<close> returns the empty id whenever the write of the message
  object fails. The code drops the error of \<^verbatim>\<open>Store\<close>: in a world where the bucket is
  obtained (call 0) and the write fails (call 1), \<^verbatim>\<open>Put\<close> still returns the id it drew.
  The id is empty only when the bucket cannot be obtained (\<open>Put_empty_id_iff\<close> below).
\<close>

theorem Put_store_failure_returns_id:
  "adapterErr storeDown (calls storeDown) = None
   \<and> adapterErr storeDown (calls storeDown + 1) = Some (Err ''timeout'')
   \<and> fst (Put storeDown orders ''hello'') = ''1000''
   \<and> trace (snd (Put storeDown orders ''hello'')) =
       [EvPut ''orders'' ''hello'',
        EvStore ''orders'' \<lparr>Key = ''1000'', Data = ''hello'', ContentType = ''application/json'',
                             Indexes = [(''id_int'', [''1000''])], conflict = False,
                             Siblings = []\<rparr>]"
  by (simp add: Put_def storeDown_def quiet_def orders_def NewBucketType_def randomID_def
      Store_def Let_def MaxInt64_def decimal_1000)

lemma Put_empty_id_iff:
  "fst (Put w queue message) = '''' \<longleftrightarrow> adapterErr w (calls w) \<noteq> None"
proof (cases "adapterErr w (calls w)")
  case None
  with Put_bucket_ok [OF None, of queue message] show ?thesis
    by (simp add: decimal_nonempty)
next
  case (Some e)
  with Put_bucket_error [OF Some, of queue message] show ?thesis by simp
qed



text \<open>
  C9. The claim is that a fetch that fails for one id is left out of the result and never
  panics. When the failing \<^verbatim>\<open>Get\<close> returns a nil object with its error, the goroutine
  reads the nil pointer: \<^verbatim>\<open>RetrieveMessages\<close>, and \<^verbatim>\<open>Get\<close> with it, panic instead of
  returning the objects of the ids 1 and 3. When every answer carries an object, an empty
  one for a key that was not found, the batch does return and the objects without content
  are left out of the result (\<open>RetrieveMessages_returns_fetched\<close> below).
\<close>

theorem RetrieveMessages_nil_object_panics:
  "getAns getDown 3 ''2'' = (None, Some (Err ''connection refused''))
   \<and> RetrieveMessages getDown orders [''1'', ''2'', ''3'']
       = Panic ''invalid memory address or nil pointer dereference''
   \<and> Get getDown orders 3 = Panic ''invalid memory address or nil pointer dereference''"
  by (simp add: getDown_def quiet_def orders_def RetrieveMessages_def Get_def fetchObject_def
      NewBucketType_def BucketGet_def Let_def)

lemma fetchObjects_returns:
  "\<forall>n k. fst (getAns w n k) \<noteq> None \<Longrightarrow> \<exists>objs w1. fetchObjects w d ids = Return (objs, w1)"
proof (induction ids arbitrary: w)
  case Nil
  then show ?case by simp
next
  case (Cons k ids)
  from Cons.prems obtain obj e where g: "getAns w (Suc (calls w)) k = (Some obj, e)"
    by (metis fst_conv not_Some_eq prod.collapse)
  then obtain obj' wa where a: "fetchObject w d k = Return (obj', wa)" and f: "getAns wa = getAns w"
    by (auto simp: fetchObject_def NewBucketType_def BucketGet_def Let_def)
  from Cons.prems f have "\<forall>n k. fst (getAns wa n k) \<noteq> None" by simp
  from Cons.IH [OF this] a show ?case by auto
qed

text \<open>
  When every answer of \<^verbatim>\<open>Get\<close> carries an object, the batch returns, one fetch for each
  id, and the result is the fetched objects that have content: an id whose fetch gave an
  empty object with its error is left out, the others are returned.
\<close>

lemma RetrieveMessages_returns_fetched:
  assumes "\<forall>n k. fst (getAns w n k) \<noteq> None"
  shows "\<exists>objs w1 w'. fetchObjects w (CompressedMessages w (Name queue)) ids = Return (objs, w1)
           \<and> length objs = length ids
           \<and> RetrieveMessages w queue ids = Return (filter (\<lambda>x. Data x \<noteq> []) objs, w')"
proof -
  from fetchObjects_returns [OF assms, of "CompressedMessages w (Name queue)" ids]
  obtain objs w1 where
    f: "fetchObjects w (CompressedMessages w (Name queue)) ids = Return (objs, w1)"
    by blast
  obtain vals w' where c: "foldl (collectObject queue) ([], w1) objs = (vals, w')"
    by (cases "foldl (collectObject queue) ([], w1) objs")
  from collect_all_effect [OF c] have v: "vals = filter (\<lambda>x. Data x \<noteq> []) objs" by simp
  have len: "length objs = length ids" if "fetchObjects w0 d ids = Return (objs, w2)"
    for w0 d w2 using that
  proof (induction ids arbitrary: w0 objs)
    case Nil
    then show ?case by simp
  next
    case (Cons k ids)
    then show ?case by (auto split: outcome.splits prod.splits)
  qed
  from f c v len [OF f] show ?thesis
    by (auto simp: RetrieveMessages_def)
qed

section \<open>The topic fan-out (app/topic.go)\<close>

text \<open>\<^verbatim>\<open>bucket.FetchMap(name)\<close> and \<^verbatim>\<open>config.Store()\<close> of the configuration store.\<close>

definition FetchMap :: "world \<Rightarrow> string \<Rightarrow> (RDtMap option \<times> err option) \<times> world" where
  "FetchMap w name = (fetchMapAns w (calls w) name, w\<lparr>calls := calls w + 1\<rparr>)"

definition StoreMap :: "world \<Rightarrow> string \<Rightarrow> RDtMap \<Rightarrow> err option \<times> world" where
  "StoreMap w name m =
     (adapterErr w (calls w), w\<lparr>calls := calls w + 1, trace := trace w @ [EvStoreMap name m]\<rparr>)"

text \<open>
  \<^verbatim>\<open>initQueueFromRiak\<close> (core/topic.go): both errors are dropped, and the new queue is
  entered in \<^verbatim>\<open>cfg.Queues.QueueMap\<close>, which is the registry \<open>QueueMap\<close> here.
\<close>

definition initQueueFromRiak :: "world \<Rightarrow> string \<Rightarrow> world" where
  "initQueueFromRiak w queueName =
     (let (_, w1) = NewBucketType w;
          ((config, _), w2) = FetchMap w1 (queueConfigRecordName w1 queueName);
          queue = \<lparr>Name = queueName, Parts = InitPartitions w2 queueName, Config = config\<rparr>
      in w2\<lparr>QueueMap := AList.update queueName queue (QueueMap w2)\<rparr>)"

text \<open>
  Modelled from the spec: \<^verbatim>\<open>Queues.InitQueue\<close>, which \<^verbatim>\<open>Broadcast\<close> calls and whose code
  is not among the sources. The specification says that the topic "lazily creates the
  queue locally if unseen"; the model takes it to do what \<open>initQueueFromRiak\<close> does.
\<close>

definition InitQueue :: "world \<Rightarrow> string \<Rightarrow> world" where
  "InitQueue w queueName = initQueueFromRiak w queueName"

text \<open>
  \<^verbatim>\<open>Topic.Broadcast\<close>. \<^verbatim>\<open>FetchSet("queues")\<close> is nil when the topic's map has no such
  set, and nothing checks it before \<^verbatim>\<open>GetValue()\<close> reads it. The map
  \<^verbatim>\<open>queueWrites\<close> is the list of its entries.
\<close>

fun broadcastTo ::
    "world \<Rightarrow> string \<Rightarrow> (string \<times> string) list \<Rightarrow> string list \<Rightarrow>
     ((string \<times> string) list \<times> world) outcome" where
  "broadcastTo w message queueWrites [] = Return (queueWrites, w)"
| "broadcastTo w message queueWrites (queue # rest) =
     (let w1 = (if map_of (QueueMap w) queue = None then InitQueue w queue else w)
      in case map_of (QueueMap w1) queue of
           None \<Rightarrow> Panic ''invalid memory address or nil pointer dereference''
         | Some q \<Rightarrow>
             let (uuid, w2) = Put w1 q message
             in broadcastTo w2 message (AList.update queue uuid queueWrites) rest)"

definition Broadcast ::
    "world \<Rightarrow> Topic \<Rightarrow> string \<Rightarrow> ((string \<times> string) list \<times> world) outcome" where
  "Broadcast w topic message =
     (case TopicConfig topic of
        None \<Rightarrow> Panic ''invalid memory address or nil pointer dereference''
      | Some config \<Rightarrow>
          (case map_of (Sets config) ''queues'' of
             None \<Rightarrow> Panic ''invalid memory address or nil pointer dereference''
           | Some queues \<Rightarrow> broadcastTo w message [] queues))"

text \<open>\<^verbatim>\<open>Topic.ListQueues\<close>.\<close>

definition ListQueues :: "Topic \<Rightarrow> string list outcome" where
  "ListQueues topic =
     (case TopicConfig topic of
        None \<Rightarrow> Panic ''invalid memory address or nil pointer dereference''
      | Some config \<Rightarrow>
          (case map_of (Sets config) ''queues'' of
             None \<Rightarrow> Return []
           | Some queueList \<Rightarrow> Return queueList))"

text \<open>
  \<^verbatim>\<open>Topic.DeleteQueue\<close>, called on the entry \<open>topic\<close> of the topic registry: the map is
  fetched, the name is removed from its set of queues, the map is stored and fetched
  again. The errors are dropped; a nil map and a nil set are read all the same.
\<close>

definition TopicDeleteQueue :: "world \<Rightarrow> string \<Rightarrow> string \<Rightarrow> world outcome" where
  "TopicDeleteQueue w topic name =
     (case map_of (TopicMap w) topic of
        None \<Rightarrow> Panic ''invalid memory address or nil pointer dereference''
      | Some t \<Rightarrow>
          let (_, w1) = NewBucketType (w\<lparr>trace := trace w @ [EvTopicDeleteQueue topic name]\<rparr>);
              ((config, _), w2) = FetchMap w1 (TopicName t)
          in case config of
               None \<Rightarrow> Panic ''invalid memory address or nil pointer dereference''
             | Some m \<Rightarrow>
                 (case map_of (Sets m) ''queues'' of
                    None \<Rightarrow> Panic ''invalid memory address or nil pointer dereference''
                  | Some queueSet \<Rightarrow>
                      let m1 = m\<lparr>Sets := AList.update ''queues'' (removeAll name queueSet) (Sets m)\<rparr>;
                          (_, w3) = StoreMap w2 (TopicName t) m1;
                          ((config2, _), w4) = FetchMap w3 (TopicName t)
                      in Return (w4\<lparr>TopicMap :=
                                     AList.update topic (t\<lparr>TopicConfig := config2\<rparr>)
                                       (TopicMap w4)\<rparr>)))"

section \<open>The reconciliation of the queue registry (core/topic.go)\<close>

text \<open>
  \<^verbatim>\<open>AddSet\<close> returns the set of that name, a new set without members when the map has
  none. The slice \<^verbatim>\<open>GetValue()\<close> returns for a set without members is nil.
\<close>

definition AddSet :: "RDtMap \<Rightarrow> string \<Rightarrow> string list \<times> RDtMap" where
  "AddSet m key =
     (case map_of (Sets m) key of
        Some members \<Rightarrow> (members, m)
      | None \<Rightarrow> ([], m\<lparr>Sets := Sets m @ [(key, [])]\<rparr>))"

text \<open>The first loop of \<^verbatim>\<open>Queues.syncConfig\<close>: one round.\<close>

definition addMissing :: "world \<Rightarrow> string \<Rightarrow> world" where
  "addMissing w queueName =
     (if map_of (QueueMap w) queueName = None then initQueueFromRiak w queueName else w)"

text \<open>
  The second loop, from the inside: the calls of \<^verbatim>\<open>DeleteQueue\<close> for the entries of one
  topic's list that equal the queue, the loop over the topics, and the round for one
  queue of the registry that is not to be kept.
\<close>

fun deleteMatching :: "world \<Rightarrow> string \<Rightarrow> string \<Rightarrow> string list \<Rightarrow> world outcome" where
  "deleteMatching w topic queue [] = Return w"
| "deleteMatching w topic queue (topicQueue # rest) =
     (if topicQueue = queue then
        (case TopicDeleteQueue w topic queue of
           Return w1 \<Rightarrow> deleteMatching w1 topic queue rest
         | Panic p \<Rightarrow> Panic p
         | Fatal f \<Rightarrow> Fatal f)
      else deleteMatching w topic queue rest)"

fun cascade :: "world \<Rightarrow> string \<Rightarrow> string list \<Rightarrow> world outcome" where
  "cascade w queue [] = Return w"
| "cascade w queue (topic # rest) =
     (case map_of (TopicMap w) topic of
        None \<Rightarrow> Panic ''invalid memory address or nil pointer dereference''
      | Some t \<Rightarrow>
          (case ListQueues t of
             Return topicQueueList \<Rightarrow>
               (case deleteMatching w topic queue topicQueueList of
                  Return w1 \<Rightarrow> cascade w1 queue rest
                | Panic p \<Rightarrow> Panic p
                | Fatal f \<Rightarrow> Fatal f)
           | Panic p \<Rightarrow> Panic p
           | Fatal f \<Rightarrow> Fatal f))"

definition removeQueue :: "world \<Rightarrow> string \<Rightarrow> world outcome" where
  "removeQueue w queue =
     (case cascade w queue (map fst (TopicMap w)) of
        Return w1 \<Rightarrow>
          Return (w1\<lparr>QueueMap := AList.delete queue (QueueMap w1),
                      trace := trace w1 @ [EvLocalDelete queue]\<rparr>)
      | Panic p \<Rightarrow> Panic p
      | Fatal f \<Rightarrow> Fatal f)"

fun removeUnused :: "world \<Rightarrow> string list \<Rightarrow> string list \<Rightarrow> world outcome" where
  "removeUnused w queuesToKeep [] = Return w"
| "removeUnused w queuesToKeep (queue # rest) =
     (if queue \<in> set queuesToKeep then removeUnused w queuesToKeep rest
      else
        (case removeQueue w queue of
           Return w1 \<Rightarrow> removeUnused w1 queuesToKeep rest
         | Panic p \<Rightarrow> Panic p
         | Fatal f \<Rightarrow> Fatal f))"

text \<open>\<^verbatim>\<open>Queue.syncConfig\<close>, on the entry \<open>name\<close> of the registry.\<close>

definition Queue_syncConfig :: "world \<Rightarrow> string \<Rightarrow> world" where
  "Queue_syncConfig w name =
     (case map_of (QueueMap w) name of
        None \<Rightarrow> w
      | Some queue \<Rightarrow>
          let (_, w1) = NewBucketType w;
              ((rCfg, _), w2) = FetchMap w1 (queueConfigRecordName w1 (Name queue))
          in w2\<lparr>QueueMap :=
                  AList.update name
                    (queue\<lparr>Config := rCfg, Parts := syncPartitions w2 (Name queue) (Parts queue)\<rparr>)
                    (QueueMap w2)\<rparr>)"

text \<open>
  \<^verbatim>\<open>Queues.syncConfig\<close>. It returns early when the bucket or the map cannot be read
  (other than with "Object not found") and when the set of queues has no members.
\<close>

definition syncConfig :: "world \<Rightarrow> world outcome" where
  "syncConfig w =
     (let (err, w1) = NewBucketType w
      in case err of
           Some e \<Rightarrow> Return w1
         | None \<Rightarrow>
             let ((queuesConfig, err), w2) = FetchMap w1 (QueueConfigName w1)
             in if err \<noteq> None \<and> err \<noteq> Some (Err ''Object not found'') then Return w2
                else
                  (case queuesConfig of
                     None \<Rightarrow> Panic ''invalid memory address or nil pointer dereference''
                   | Some m \<Rightarrow>
                       let (queueSlice, m1) = AddSet m (QueueSetName w2);
                           w3 = w2\<lparr>QueuesConfig := Some m1\<rparr>
                       in if queueSlice = [] then Return w3
                          else
                            let w4 = foldl addMissing w3 queueSlice;
                                queuesToKeep = queueSlice
                            in case removeUnused w4 queuesToKeep (map fst (QueueMap w4)) of
                                 Return w5 \<Rightarrow>
                                   Return (foldl Queue_syncConfig w5 (map fst (QueueMap w5)))
                               | Panic p \<Rightarrow> Panic p
                               | Fatal f \<Rightarrow> Fatal f))"

text \<open>
  The loop of \<^verbatim>\<open>Queues.scheduleSync\<close> over the signals it receives: a tick of the
  scheduler or the kill signal. The result says whether the loop is still waiting.
\<close>

datatype signal = Tick | Kill

fun scheduleSync :: "world \<Rightarrow> signal list \<Rightarrow> (bool \<times> world) outcome" where
  "scheduleSync w [] = Return (True, w)"
| "scheduleSync w (Kill # rest) = Return (False, w)"
| "scheduleSync w (Tick # rest) =
     (case syncConfig w of
        Return w1 \<Rightarrow> scheduleSync w1 rest
      | Panic p \<Rightarrow> Panic p
      | Fatal f \<Rightarrow> Fatal f)"

section \<open>Readers of the trace and worlds to run the registries on\<close>





text \<open>
  A topic linked to two queues and a world in which the write of the first message
  fails; worlds in which the bucket, or the map of the queue registry, cannot be read; a
  world whose shared set no longer holds the local queue \<open>stale\<close>; and a world whose
  shared set has no members at all.
\<close>

definition news :: Topic where
  "news = \<lparr>TopicName = ''news'',
           TopicConfig = Some \<lparr>Sets = [(''queues'', [''orders'', ''audit''])]\<rparr>\<rparr>"

definition writeDown :: world where
  "writeDown = quiet\<lparr>adapterErr := (\<lambda>n. if n = 3 then Some (Err ''timeout'') else None)\<rparr>"

definition bucketDown :: world where
  "bucketDown =
     quiet\<lparr>QueueMap := [(''orders'', orders)],
           adapterErr := (\<lambda>n. if n = 0 then Some (Err ''connection refused'') else None)\<rparr>"

definition mapDown :: world where
  "mapDown =
     quiet\<lparr>QueueMap := [(''orders'', orders)],
           fetchMapAns := (\<lambda>n k. (None, Some (Err ''timeout'')))\<rparr>"





section \<open>Properties of the topic fan-out\<close>

lemma initQueueFromRiak_effect:
  "QueueMap (initQueueFromRiak w queueName) =
      AList.update queueName
        \<lparr>Name = queueName, Parts = InitPartitions w queueName,
           Config = fst (fst (FetchMap (snd (NewBucketType w)) (queueConfigRecordName w queueName)))\<rparr>
        (QueueMap w)"
  "trace (initQueueFromRiak w queueName) = trace w"
  "TopicMap (initQueueFromRiak w queueName) = TopicMap w"
  by (simp_all add: initQueueFromRiak_def NewBucketType_def FetchMap_def Let_def
      split: prod.splits)

lemma Put_isPut:
  "filter isPut (trace (snd (Put w queue message))) =
     filter isPut (trace w) @ [EvPut (Name queue) message]"
proof (cases "adapterErr w (calls w)")
  case None
  from Put_bucket_ok [OF None, of queue message] show ?thesis by auto
next
  case (Some e)
  from Put_bucket_error [OF Some, of queue message] show ?thesis by simp
qed

lemma broadcastTo_effect:
  assumes "\<forall>k q. map_of (QueueMap w) k = Some q \<longrightarrow> Name q = k"
  shows "\<exists>writes w'. broadcastTo w message queueWrites queues = Return (writes, w')
     \<and> filter isPut (trace w') = filter isPut (trace w) @ map (\<lambda>q. EvPut q message) queues
     \<and> fst ` set writes = fst ` set queueWrites \<union> set queues"
  using assms
proof (induction queues arbitrary: w queueWrites)
  case Nil
  then show ?case by simp
next
  case (Cons queue rest)
  let ?w1 = "if map_of (QueueMap w) queue = None then InitQueue w queue else w"
  have "\<exists>q. map_of (QueueMap ?w1) queue = Some q"
    using initQueueFromRiak_effect(1) [of w queue]
    by (auto simp: InitQueue_def update_conv')
  then obtain q where q: "map_of (QueueMap ?w1) queue = Some q" by blast
  have inv1: "\<forall>k q. map_of (QueueMap ?w1) k = Some q \<longrightarrow> Name q = k"
    using Cons.prems initQueueFromRiak_effect(1) [of w queue]
    by (auto simp: InitQueue_def update_conv' split: if_splits)
  with q have nq: "Name q = queue" by blast
  have t1: "trace ?w1 = trace w"
    by (simp add: InitQueue_def initQueueFromRiak_effect(2))
  obtain uuid w2 where p: "Put ?w1 q message = (uuid, w2)" by (cases "Put ?w1 q message")
  then have w2: "w2 = snd (Put ?w1 q message)" by simp
  have inv2: "\<forall>k q. map_of (QueueMap w2) k = Some q \<longrightarrow> Name q = k"
    using inv1 unfolding w2 by (simp add: Put_frame)
  have t2: "filter isPut (trace w2) = filter isPut (trace w) @ [EvPut queue message]"
    unfolding w2 using Put_isPut [of ?w1 q message] t1 nq by simp
  from Cons.IH [OF inv2, of "AList.update queue uuid queueWrites"] obtain writes w' where
    r: "broadcastTo w2 message (AList.update queue uuid queueWrites) rest = Return (writes, w')"
    "filter isPut (trace w') = filter isPut (trace w2) @ map (\<lambda>q. EvPut q message) rest"
    "fst ` set writes = fst ` set (AList.update queue uuid queueWrites) \<union> set rest"
    by blast
  have "broadcastTo w message queueWrites (queue # rest) = Return (writes, w')"
    using q p r(1) by (simp add: Let_def)
  with r(2,3) t2 show ?case by (auto simp: dom_update)
qed

lemma Broadcast_puts_every_queue:
  assumes "TopicConfig topic = Some config"
    and "map_of (Sets config) ''queues'' = Some queues"
    and "\<forall>k q. map_of (QueueMap w) k = Some q \<longrightarrow> Name q = k"
  shows "\<exists>writes w'. Broadcast w topic message = Return (writes, w')
     \<and> filter isPut (trace w') = filter isPut (trace w) @ map (\<lambda>q. EvPut q message) queues
     \<and> fst ` set writes = set queues"
  using broadcastTo_effect [OF assms(3), of message "[]" queues] assms(1,2)
  by (simp add: Broadcast_def)

text \<open>
  C6. \<^verbatim>\<open>Broadcast\<close> does put the message on every linked queue, creating the queues it
  has not seen, whatever the earlier puts return (\<open>Broadcast_puts_every_queue\<close> above).
  But a put whose write fails is not visible in the returned map: in a world where the
  write to the first queue fails (call 3 of the adapter), the entry of that queue is the
  id that was drawn, not the empty id.
\<close>

theorem Broadcast_store_failure_shows_id:
  "adapterErr writeDown 3 = Some (Err ''timeout'')
   \<and> (\<exists>w'. Broadcast writeDown news ''hello''
              = Return ([(''orders'', ''1000''), (''audit'', ''1001'')], w')
          \<and> trace w' =
              [EvPut ''orders'' ''hello'',
               EvStore ''orders'' \<lparr>Key = ''1000'', Data = ''hello'',
                                    ContentType = ''application/json'',
                                    Indexes = [(''id_int'', [''1000''])], conflict = False,
                                    Siblings = []\<rparr>,
               EvPut ''audit'' ''hello'',
               EvStore ''audit'' \<lparr>Key = ''1001'', Data = ''hello'',
                                   ContentType = ''application/json'',
                                   Indexes = [(''id_int'', [''1001''])], conflict = False,
                                   Siblings = []\<rparr>]
          \<and> calls w' = 8)"
  by (simp add: Broadcast_def news_def writeDown_def quiet_def InitQueue_def
      initQueueFromRiak_def FetchMap_def Put_def NewBucketType_def randomID_def Store_def
      Let_def MaxInt64_def decimal_1000)

section \<open>Properties of the reconciliation of the queue registry\<close>

text \<open>
  C8. A cycle in which the bucket cannot be obtained, or the map of the queue registry
  cannot be fetched for a reason other than "Object not found", returns with the world
  as it was but for the count of the adapter calls made: the registries, the
  configuration, the statistics and the trace are untouched. The loop takes the next
  signal from that world: it has neither crashed nor stopped.
\<close>

theorem syncConfig_transient_failure:
  assumes "adapterErr w (calls w) \<noteq> None
           \<or> (snd (fetchMapAns w (calls w + 1) (QueueConfigName w)) \<noteq> None
              \<and> snd (fetchMapAns w (calls w + 1) (QueueConfigName w))
                  \<noteq> Some (Err ''Object not found''))"
  shows "\<exists>k. syncConfig w = Return (w\<lparr>calls := calls w + k\<rparr>)
           \<and> (\<forall>signals. scheduleSync w (Tick # signals)
                           = scheduleSync (w\<lparr>calls := calls w + k\<rparr>) signals)
           \<and> scheduleSync w [Tick] = Return (True, w\<lparr>calls := calls w + k\<rparr>)"
proof (cases "adapterErr w (calls w)")
  case (Some e)
  then have "syncConfig w = Return (w\<lparr>calls := calls w + 1\<rparr>)"
    by (simp add: syncConfig_def NewBucketType_def)
  then show ?thesis by (intro exI [of _ 1]) simp
next
  case None
  obtain queuesConfig err where
    f: "fetchMapAns w (Suc (calls w)) (QueueConfigName w) = (queuesConfig, err)"
    by (cases "fetchMapAns w (Suc (calls w)) (QueueConfigName w)")
  with None assms have "err \<noteq> None" "err \<noteq> Some (Err ''Object not found'')"
    by auto
  with None f have "syncConfig w = Return (w\<lparr>calls := calls w + 2\<rparr>)"
    by (simp add: syncConfig_def NewBucketType_def FetchMap_def Let_def)
  then show ?thesis by (intro exI [of _ 2]) simp
qed

theorem syncConfig_transient_failure_witness:
  "adapterErr bucketDown (calls bucketDown) \<noteq> None
   \<and> syncConfig bucketDown = Return (bucketDown\<lparr>calls := 1\<rparr>)
   \<and> QueueMap (bucketDown\<lparr>calls := 1\<rparr>) = [(''orders'', orders)]
   \<and> scheduleSync bucketDown [Tick] = Return (True, bucketDown\<lparr>calls := 1\<rparr>)
   \<and> snd (fetchMapAns mapDown (calls mapDown + 1) (QueueConfigName mapDown)) = Some (Err ''timeout'')
   \<and> syncConfig mapDown = Return (mapDown\<lparr>calls := 2\<rparr>)
   \<and> scheduleSync mapDown [Tick, Kill] = Return (False, mapDown\<lparr>calls := 2\<rparr>)"
proof -
  have h1: "adapterErr bucketDown (calls bucketDown) \<noteq> None
           \<or> (snd (fetchMapAns bucketDown (calls bucketDown + 1) (QueueConfigName bucketDown)) \<noteq> None
              \<and> snd (fetchMapAns bucketDown (calls bucketDown + 1) (QueueConfigName bucketDown))
                  \<noteq> Some (Err ''Object not found''))"
    by (simp add: bucketDown_def quiet_def)
  have h2: "adapterErr mapDown (calls mapDown) \<noteq> None
           \<or> (snd (fetchMapAns mapDown (calls mapDown + 1) (QueueConfigName mapDown)) \<noteq> None
              \<and> snd (fetchMapAns mapDown (calls mapDown + 1) (QueueConfigName mapDown))
                  \<noteq> Some (Err ''Object not found''))"
    by (simp add: mapDown_def quiet_def)
  have c: "calls bucketDown = 0" "calls mapDown = 0"
    "adapterErr bucketDown 0 = Some (Err ''connection refused'')" "adapterErr mapDown 0 = None"
    "fetchMapAns mapDown (Suc 0) (QueueConfigName mapDown) = (None, Some (Err ''timeout''))"
    "QueueMap bucketDown = [(''orders'', orders)]"
    by (simp_all add: bucketDown_def mapDown_def quiet_def)
  from syncConfig_transient_failure [OF h1] obtain k where
    k: "syncConfig bucketDown = Return (bucketDown\<lparr>calls := calls bucketDown + k\<rparr>)"
       "scheduleSync bucketDown [Tick] = Return (True, bucketDown\<lparr>calls := calls bucketDown + k\<rparr>)"
    by blast
  have k1: "syncConfig bucketDown = Return (bucketDown\<lparr>calls := 1\<rparr>)"
    using c by (simp add: syncConfig_def NewBucketType_def)
  from k k1 have kk: "bucketDown\<lparr>calls := calls bucketDown + k\<rparr> = bucketDown\<lparr>calls := 1\<rparr>"
    by simp
  from syncConfig_transient_failure [OF h2] obtain j where
    j: "syncConfig mapDown = Return (mapDown\<lparr>calls := calls mapDown + j\<rparr>)"
       "\<forall>signals. scheduleSync mapDown (Tick # signals)
                           = scheduleSync (mapDown\<lparr>calls := calls mapDown + j\<rparr>) signals"
    by blast
  have j1: "syncConfig mapDown = Return (mapDown\<lparr>calls := 2\<rparr>)"
    using c by (simp add: syncConfig_def NewBucketType_def FetchMap_def Let_def)
  from j j1 have jj: "mapDown\<lparr>calls := calls mapDown + j\<rparr> = mapDown\<lparr>calls := 2\<rparr>"
    by simp
  from j(2) have "scheduleSync mapDown [Tick, Kill] = Return (False, mapDown\<lparr>calls := 2\<rparr>)"
    unfolding jj by simp
  with k(2) k1 j1 c show ?thesis unfolding kk by simp
qed


















end
